theory Spec2Isabelle
  imports Main "HOL-Library.Sublist"
begin

section \<open>Python library functions used by \<^verbatim>\<open>app.py\<close>\<close>

text \<open>
  \<^verbatim>\<open>str.replace(old, new)\<close>: the occurrences of \<open>old\<close> are found from left to
  right and do not overlap. For an empty \<open>old\<close> Python puts \<open>new\<close> before every
  character and at the end. The handlers call it as
  \<^verbatim>\<open>user_id.replace('@', '_at_')\<close>.
\<close>

function str_replace :: "string \<Rightarrow> string \<Rightarrow> string \<Rightarrow> string" where
  "str_replace old new [] = (if old = [] then new else [])"
| "str_replace old new (c # cs) =
     (if old = [] then new @ c # str_replace old new cs
      else if prefix old (c # cs)
        then new @ str_replace old new (drop (length old) (c # cs))
        else c # str_replace old new cs)"
  by pat_completeness auto
termination
  by (relation "measure (\<lambda>(old, new, s). length s)") (auto simp: neq_Nil_conv)

text \<open>
  \<^verbatim>\<open>os.path.join(a, b)\<close> of \<^verbatim>\<open>posixpath\<close>: a second component that starts with
  the separator replaces the first one; otherwise the two are glued with one separator,
  unless the first is empty or already ends with it.
\<close>

definition os_path_join :: "string \<Rightarrow> string \<Rightarrow> string" where
  "os_path_join a b =
     (if prefix ''/'' b then b
      else if a = [] \<or> suffix ''/'' a then a @ b
      else a @ ''/'' @ b)"

subsection \<open>\<^verbatim>\<open>datetime.isoformat()\<close>\<close>

text \<open>
  \<^verbatim>\<open>datetime.now()\<close> is a naive local time. Its \<^verbatim>\<open>isoformat()\<close> prints
  \<^verbatim>\<open>%04d-%02d-%02dT%02d:%02d:%02d\<close> and, when the microsecond is not zero,
  \<^verbatim>\<open>.%06d\<close> after it.
\<close>

record datetime =
  year :: nat
  month :: nat
  day :: nat
  hour :: nat
  minute :: nat
  second :: nat
  microsecond :: nat

definition digit_char :: "nat \<Rightarrow> char" where
  "digit_char d = ''0123456789'' ! (d mod 10)"

fun dec :: "nat \<Rightarrow> string" where
  "dec n = (if n < 10 then [digit_char n] else dec (n div 10) @ [digit_char (n mod 10)])"

text \<open>\<^verbatim>\<open>%0wd\<close>: decimal, padded with zeros on the left up to width \<open>w\<close>.\<close>

definition zero_pad :: "nat \<Rightarrow> nat \<Rightarrow> string" where
  "zero_pad w n = replicate (w - length (dec n)) CHR ''0'' @ dec n"

definition isoformat :: "datetime \<Rightarrow> string" where
  "isoformat d =
     zero_pad 4 (year d) @ ''-'' @ zero_pad 2 (month d) @ ''-'' @ zero_pad 2 (day d) @ ''T'' @
     zero_pad 2 (hour d) @ '':'' @ zero_pad 2 (minute d) @ '':'' @ zero_pad 2 (second d) @
     (if microsecond d = 0 then [] else ''.'' @ zero_pad 6 (microsecond d))"

text \<open>
  The values a \<^verbatim>\<open>datetime\<close> object can hold (its constructor refuses every other):
  years 1 to 9999, and the usual ranges of the other fields. The length of the month is
  not needed here.
\<close>

definition valid_datetime :: "datetime \<Rightarrow> bool" where
  "valid_datetime d =
     (1 \<le> year d \<and> year d \<le> 9999 \<and> 1 \<le> month d \<and> month d \<le> 12 \<and>
      1 \<le> day d \<and> day d \<le> 31 \<and> hour d < 24 \<and> minute d < 60 \<and> second d < 60 \<and>
      microsecond d < 1000000)"

subsection \<open>JSON values\<close>

text \<open>
  A Python \<^verbatim>\<open>float\<close>: a finite binary number \<open>m * 2 ^ e\<close>, written \<open>Finite m e\<close>, or
  one of the three values \<^verbatim>\<open>NaN\<close>, \<^verbatim>\<open>Infinity\<close> and \<^verbatim>\<open>-Infinity\<close>, which
  \<^verbatim>\<open>json.load\<close> reads as well (\<open>Infinity True\<close> is the negative one). The program
  never computes with a number; it only passes it on.
\<close>

datatype py_float = Finite int int | NaN | Infinity bool

text \<open>
  What \<^verbatim>\<open>json.load\<close> returns and \<^verbatim>\<open>json.dump\<close> takes: \<^verbatim>\<open>None\<close>, a bool,
  an int, a float, a string, a list or a dict. An object keeps its members in insertion
  order and is read with \<open>map_of\<close>. A string is text in its UTF-8 encoding.
\<close>

datatype json =
    JNull
  | JBool bool
  | JInt int
  | JFloat py_float
  | JString string
  | JArray "json list"
  | JObject "(string \<times> json) list"

text \<open>The name of the Python type, as it stands in an \<^verbatim>\<open>AttributeError\<close>.\<close>

fun py_type :: "json \<Rightarrow> string" where
  "py_type JNull = ''NoneType''"
| "py_type (JBool _) = ''bool''"
| "py_type (JInt _) = ''int''"
| "py_type (JFloat _) = ''float''"
| "py_type (JString _) = ''str''"
| "py_type (JArray _) = ''list''"
| "py_type (JObject _) = ''dict''"

text \<open>Python's truth value, which \<^verbatim>\<open>if x:\<close> and \<^verbatim>\<open>if not x:\<close> test.\<close>

fun truthy :: "json \<Rightarrow> bool" where
  "truthy JNull = False"
| "truthy (JBool b) = b"
| "truthy (JInt i) = (i \<noteq> 0)"
| "truthy (JFloat (Finite m e)) = (m \<noteq> 0)"
| "truthy (JFloat NaN) = True"
| "truthy (JFloat (Infinity negative)) = True"
| "truthy (JString s) = (s \<noteq> [])"
| "truthy (JArray xs) = (xs \<noteq> [])"
| "truthy (JObject kvs) = (kvs \<noteq> [])"

text \<open>
  \<^verbatim>\<open>x.get(key)\<close>: on a dict the value or \<^verbatim>\<open>None\<close>; on any other value the
  attribute is missing and Python raises \<^verbatim>\<open>AttributeError\<close>, whose text is the
  \<open>Inl\<close> here.
\<close>

definition no_attribute :: "json \<Rightarrow> string \<Rightarrow> string" where
  "no_attribute x a =
     [CHR 0x27] @ py_type x @ [CHR 0x27] @ '' object has no attribute '' @
     [CHR 0x27] @ a @ [CHR 0x27]"

fun dict_get :: "json \<Rightarrow> string \<Rightarrow> string + json" where
  "dict_get (JObject kvs) k = Inr (case map_of kvs k of None \<Rightarrow> JNull | Some v \<Rightarrow> v)"
| "dict_get x k = Inl (no_attribute x ''get'')"

text \<open>
  The framework renders the dict a handler returns with
  \<^verbatim>\<open>json.dumps(..., allow_nan=False)\<close>, which raises on a \<^verbatim>\<open>NaN\<close> or an infinity
  anywhere in the value. \<open>renderable\<close> is that check. What else a framework may fail
  to render is not fixed here: the endpoint below takes its renderer as a parameter, and
  the theorems ask of it only that it renders a \<open>flat_object\<close>, a dict whose values are
  \<^verbatim>\<open>None\<close>, bools, ints, finite floats and strings.
\<close>

fun renderable :: "json \<Rightarrow> bool" where
  "renderable (JFloat (Finite m e)) = True"
| "renderable (JFloat NaN) = False"
| "renderable (JFloat (Infinity negative)) = False"
| "renderable (JArray xs) = list_all renderable xs"
| "renderable (JObject kvs) = list_all (\<lambda>kv. renderable (snd kv)) kvs"
| "renderable j = True"

fun plain :: "json \<Rightarrow> bool" where
  "plain JNull = True"
| "plain (JBool b) = True"
| "plain (JInt i) = True"
| "plain (JFloat (Finite m e)) = True"
| "plain (JString s) = True"
| "plain j = False"

fun flat_object :: "json \<Rightarrow> bool" where
  "flat_object (JObject kvs) = list_all (\<lambda>kv. plain (snd kv)) kvs"
| "flat_object j = False"

definition renders_flat :: "(json \<Rightarrow> bool) \<Rightarrow> bool" where
  "renders_flat render = (\<forall>body. flat_object body \<longrightarrow> render body)"

section \<open>Configuration\<close>

text \<open>
  Lines 31 to 39. Three values come from the process environment, each with a default;
  the scope list is fixed.
\<close>

record config =
  CLIENT_SECRETS_FILE :: string
  REDIRECT_URI :: string
  TOKEN_STORAGE_DIR :: string

definition default_config :: config where
  "default_config =
     \<lparr>CLIENT_SECRETS_FILE = ''../.gauth.json'',
      REDIRECT_URI = ''https://taskiq.io/auth/google'',
      TOKEN_STORAGE_DIR = ''./tokens''\<rparr>"

definition SCOPES :: "string list" where
  "SCOPES =
     [''openid'',
      ''https://www.googleapis.com/auth/userinfo.email'',
      ''https://mail.google.com/'',
      ''https://www.googleapis.com/auth/calendar'']"

section \<open>The file system\<close>

text \<open>
  A path is a name: the operating system resolves \<open>.\<close>, \<open>..\<close>, repeated separators and
  links, so that two spellings can name one file. \<open>resolve\<close> gives the file a path
  names, as a value of a type \<open>'n\<close> of file identities, and the store maps files, not
  path strings, to what they hold. \<^verbatim>\<open>open\<close> and \<^verbatim>\<open>os.path.exists\<close> both go through
  it. Writing a file does not change which file a path names.

  A file holds something or does not exist. What the handlers see of a file is what
  \<^verbatim>\<open>open(path, "r")\<close> followed by \<^verbatim>\<open>json.load\<close> gives: the document, or an
  exception (a directory, a file that cannot be read, text that is not JSON) with its
  message. \<^verbatim>\<open>os.path.exists\<close> is true of both. The text of a file is not modelled:
  a document that \<^verbatim>\<open>json.dump\<close> wrote is the document \<^verbatim>\<open>json.load\<close> reads back.

  Opening a path for writing and dumping a document into it has one of three outcomes,
  which the environment decides: the file now holds the document; \<^verbatim>\<open>open\<close> raises
  and nothing changes; or the write raises after the file was opened and truncated, and
  the path is left with what reached the disk.
\<close>

datatype file_content = Document json | Unreadable string

datatype write_outcome = Written | OpenFails string | DumpFails string file_content

record 'n filesystem =
  files :: "'n \<rightharpoonup> file_content"
  resolve :: "string \<Rightarrow> 'n"
  open_w :: "string \<Rightarrow> write_outcome"

definition os_path_exists :: "'n filesystem \<Rightarrow> string \<Rightarrow> bool" where
  "os_path_exists fs path = (files fs (resolve fs path) \<noteq> None)"

text \<open>\<^verbatim>\<open>with open(path, "r") as f: json.load(f)\<close>; \<open>Inl\<close> is the text of the exception.\<close>

definition read_json :: "'n filesystem \<Rightarrow> string \<Rightarrow> string + json" where
  "read_json fs path =
     (case files fs (resolve fs path) of
        None \<Rightarrow> Inl (''[Errno 2] No such file or directory: '' @ [CHR 0x27] @ path @ [CHR 0x27])
      | Some (Unreadable msg) \<Rightarrow> Inl msg
      | Some (Document j) \<Rightarrow> Inr j)"

text \<open>\<^verbatim>\<open>with open(path, "w") as f: json.dump(data, f)\<close>.\<close>

definition write_json ::
  "'n filesystem \<Rightarrow> string \<Rightarrow> json \<Rightarrow> (string + unit) \<times> 'n filesystem" where
  "write_json fs path data =
     (case open_w fs path of
        Written \<Rightarrow> (Inr (), fs\<lparr>files := (files fs)(resolve fs path \<mapsto> Document data)\<rparr>)
      | OpenFails msg \<Rightarrow> (Inl msg, fs)
      | DumpFails msg left \<Rightarrow>
          (Inl msg, fs\<lparr>files := (files fs)(resolve fs path \<mapsto> left)\<rparr>))"

section \<open>The credential store\<close>

datatype http_exception = HTTPException (exc_status_code: nat) (detail: string)

text \<open>
  Of \<^verbatim>\<open>google.oauth2.credentials.Credentials\<close> the program reads the access token
  and the serialized form that \<^verbatim>\<open>to_json()\<close> returns.
\<close>

record credentials =
  token :: string
  to_json :: string

text \<open>
  Lines 71 and 194 compute the path of a user's file with the same expression:
  \<^verbatim>\<open>os.path.join(TOKEN_STORAGE_DIR, f"{user_id.replace('@', '_at_')}.json")\<close>.
\<close>

definition token_filename :: "string \<Rightarrow> string" where
  "token_filename user_id = str_replace ''@'' ''_at_'' user_id @ ''.json''"

definition token_path :: "config \<Rightarrow> string \<Rightarrow> string" where
  "token_path cfg user_id = os_path_join (TOKEN_STORAGE_DIR cfg) (token_filename user_id)"

definition token_data :: "credentials \<Rightarrow> datetime \<Rightarrow> json" where
  "token_data credentials now =
     JObject [(''token'', JString (to_json credentials)),
              (''created_at'', JString (isoformat now))]"

text \<open>
  \<^verbatim>\<open>save_token\<close>, lines 68 to 80. \<open>now\<close> is the value of \<^verbatim>\<open>datetime.now()\<close> on
  line 74. Every exception in the body becomes an \<^verbatim>\<open>HTTPException\<close> with status
  500. The result is the path written, and the file system after the call.
\<close>

definition save_token ::
  "config \<Rightarrow> datetime \<Rightarrow> 'n filesystem \<Rightarrow> string \<Rightarrow> credentials \<Rightarrow>
     (http_exception + string) \<times> 'n filesystem" where
  "save_token cfg now fs user_id credentials =
     (case write_json fs (token_path cfg user_id) (token_data credentials now) of
        (Inr _, fs') \<Rightarrow> (Inr (token_path cfg user_id), fs')
      | (Inl msg, fs') \<Rightarrow> (Inl (HTTPException 500 (''Failed to save token: '' @ msg)), fs'))"

text \<open>
  \<^verbatim>\<open>get_token\<close>, lines 192 to 210: the function alone. It either returns its body
  (\<open>Inr\<close>) or raises an \<^verbatim>\<open>HTTPException\<close> (\<open>Inl\<close>). The \<^verbatim>\<open>try\<close> covers the read,
  the parse and the \<^verbatim>\<open>.get\<close>.
\<close>

definition get_token :: "config \<Rightarrow> 'n filesystem \<Rightarrow> string \<Rightarrow> http_exception + json" where
  "get_token cfg fs user_id =
     (if \<not> os_path_exists fs (token_path cfg user_id)
      then Inr (JObject [(''has_token'', JBool False),
                         (''message'', JString ''No token found for user'')])
      else
        (case read_json fs (token_path cfg user_id) of
           Inl msg \<Rightarrow>
             Inr (JObject [(''has_token'', JBool False),
                           (''message'', JString (''Error reading token: '' @ msg))])
         | Inr data \<Rightarrow>
             (case dict_get data ''created_at'' of
                Inl msg \<Rightarrow>
                  Inr (JObject [(''has_token'', JBool False),
                                (''message'', JString (''Error reading token: '' @ msg))])
              | Inr created_at \<Rightarrow>
                  Inr (JObject [(''has_token'', JBool True),
                                (''created_at'', created_at),
                                (''message'', JString ''Token found for user'')]))))"

section \<open>The OAuth libraries and the network\<close>

text \<open>
  \<^verbatim>\<open>google_auth_oauthlib\<close>, \<^verbatim>\<open>httpx\<close> and the provider behind them are not part of
  the program. One request sees them as the functions of this record; an \<open>Inl\<close> is the
  text of the exception raised.
  \<^item> \<open>from_client_secrets_file path scopes redirect_uri\<close> builds the flow object, of a
    type \<open>'flow\<close> the program never looks into;
  \<^item> \<open>authorization_url st flow kwargs\<close> returns the consent URL and the state; \<open>st\<close>
    stands for what the library generates by itself on that call;
  \<^item> \<open>fetch_token flow code\<close> is \<^verbatim>\<open>flow.fetch_token(code=code)\<close> followed by
    \<^verbatim>\<open>flow.credentials\<close>;
  \<^item> \<open>httpx_get url headers\<close> is \<^verbatim>\<open>httpx.get\<close>, \<^verbatim>\<open>raise_for_status()\<close> and
    \<^verbatim>\<open>response.json()\<close>;
  \<^item> \<open>str_HTTPException\<close> is \<^verbatim>\<open>str(e)\<close> of an \<^verbatim>\<open>HTTPException\<close>, which depends
    on the version of the web framework;
  \<^item> \<open>now\<close> is the clock, read by \<^verbatim>\<open>save_token\<close>.
\<close>

record 'flow env =
  from_client_secrets_file :: "string \<Rightarrow> string list \<Rightarrow> string \<Rightarrow> string + 'flow"
  authorization_url :: "string \<Rightarrow> 'flow \<Rightarrow> (string \<times> string) list \<Rightarrow> string + string \<times> string"
  fetch_token :: "'flow \<Rightarrow> string \<Rightarrow> string + credentials"
  httpx_get :: "string \<Rightarrow> (string \<times> string) list \<Rightarrow> string + json"
  str_HTTPException :: "http_exception \<Rightarrow> string"
  now :: datetime

text \<open>The calls a handler makes to them, in the order it makes them.\<close>

datatype call =
    FromClientSecretsFile string
  | AuthorizationUrl "(string \<times> string) list"
  | FetchToken string
  | HttpxGet string "(string \<times> string) list"

text \<open>What a \<^verbatim>\<open>try\<close> block can raise: an \<^verbatim>\<open>HTTPException\<close> or another exception.\<close>

datatype exn = RaisedHTTP http_exception | Raised string

fun str_exn :: "'flow env \<Rightarrow> exn \<Rightarrow> string" where
  "str_exn env (RaisedHTTP e) = str_HTTPException env e"
| "str_exn env (Raised msg) = msg"

text \<open>\<^verbatim>\<open>get_flow\<close>, lines 56 to 66.\<close>

definition get_flow :: "config \<Rightarrow> 'flow env \<Rightarrow> http_exception + 'flow" where
  "get_flow cfg env =
     (case from_client_secrets_file env (CLIENT_SECRETS_FILE cfg) SCOPES (REDIRECT_URI cfg) of
        Inr flow \<Rightarrow> Inr flow
      | Inl msg \<Rightarrow> Inl (HTTPException 500 (''Failed to create OAuth flow: '' @ msg)))"

text \<open>\<^verbatim>\<open>get_user_info\<close>, lines 82 to 91.\<close>

definition userinfo_url :: string where
  "userinfo_url = ''https://www.googleapis.com/oauth2/v2/userinfo''"

definition userinfo_headers :: "credentials \<Rightarrow> (string \<times> string) list" where
  "userinfo_headers credentials = [(''Authorization'', ''Bearer '' @ token credentials)]"

definition get_user_info :: "'flow env \<Rightarrow> credentials \<Rightarrow> http_exception + json" where
  "get_user_info env credentials =
     (case httpx_get env userinfo_url (userinfo_headers credentials) of
        Inr body \<Rightarrow> Inr body
      | Inl msg \<Rightarrow> Inl (HTTPException 500 (''Failed to get user info: '' @ msg)))"

section \<open>The handlers\<close>

datatype html_response = HTMLResponse (content: string) (status_code: nat)

text \<open>The page of lines 103 to 112, which lines 161 to 170 repeat.\<close>

definition error_html :: "string \<Rightarrow> string" where
  "error_html error =
     ''\<newline>        <html>\<newline>'' @
     ''            <head><title>Authentication Error</title></head>\<newline>'' @
     ''            <body>\<newline>'' @
     ''                <h1>Authentication Error</h1>\<newline>'' @
     ''                <p>Error: '' @ error @ ''</p>\<newline>'' @
     ''                <p>Please close this window and try again.</p>\<newline>'' @
     ''            </body>\<newline>'' @
     ''        </html>\<newline>        ''"

text \<open>The page of lines 137 to 156.\<close>

definition success_html :: "string \<Rightarrow> string" where
  "success_html user_email =
     ''\<newline>        <html>\<newline>'' @
     ''            <head><title>Authentication Successful</title></head>\<newline>'' @
     ''            <body>\<newline>'' @
     ''                <h1>Authentication Successful</h1>\<newline>'' @
     ''                <p>You have successfully authenticated with Google.</p>\<newline>'' @
     ''                <p>Email: '' @ user_email @ ''</p>\<newline>'' @
     ''                <p>You may now close this window and return to TaskIQ.</p>\<newline>'' @
     ''                <script>\<newline>'' @
     ''                    // Send message to telegram bot (if opened through Telegram)\<newline>'' @
     ''                    if (window.TelegramWebviewProxy) {\<newline>'' @
     ''                        window.TelegramWebviewProxy.postEvent('' @ [CHR 0x27] @
         ''auth_complete'' @ [CHR 0x27] @ '', {\<newline>'' @
     ''                            email: '' @ [CHR 0x27] @ user_email @ [CHR 0x27] @ '',\<newline>'' @
     ''                            success: true\<newline>'' @
     ''                        });\<newline>'' @
     ''                    }\<newline>'' @
     ''                </script>\<newline>'' @
     ''            </body>\<newline>'' @
     ''        </html>\<newline>        ''"

text \<open>
  The \<^verbatim>\<open>try\<close> block of \<^verbatim>\<open>auth_callback\<close>, lines 119 to 157. It returns what the
  block returns or raises, the file system after it, and the calls made.
  \<^verbatim>\<open>save_token\<close> is annotated \<^verbatim>\<open>user_id: str\<close>, but the value passed on line 134
  is whatever the identity endpoint sent under \<^verbatim>\<open>email\<close>: with a true value that is
  not a string, \<^verbatim>\<open>.replace\<close> on line 71 raises \<^verbatim>\<open>AttributeError\<close> inside the
  \<^verbatim>\<open>try\<close> of \<^verbatim>\<open>save_token\<close>.
\<close>

definition auth_callback_try ::
  "config \<Rightarrow> 'flow env \<Rightarrow> 'n filesystem \<Rightarrow> string \<Rightarrow>
     (exn + html_response) \<times> 'n filesystem \<times> call list" where
  "auth_callback_try cfg env fs code =
     (case get_flow cfg env of
        Inl e \<Rightarrow> (Inl (RaisedHTTP e), fs, [FromClientSecretsFile (CLIENT_SECRETS_FILE cfg)])
      | Inr flow \<Rightarrow>
          (case fetch_token env flow code of
             Inl msg \<Rightarrow>
               (Inl (Raised msg), fs,
                [FromClientSecretsFile (CLIENT_SECRETS_FILE cfg), FetchToken code])
           | Inr credentials \<Rightarrow>
               (let calls = [FromClientSecretsFile (CLIENT_SECRETS_FILE cfg), FetchToken code,
                             HttpxGet userinfo_url (userinfo_headers credentials)]
                in case get_user_info env credentials of
                     Inl e \<Rightarrow> (Inl (RaisedHTTP e), fs, calls)
                   | Inr user_info \<Rightarrow>
                       (case dict_get user_info ''email'' of
                          Inl msg \<Rightarrow> (Inl (Raised msg), fs, calls)
                        | Inr user_email \<Rightarrow>
                            if \<not> truthy user_email
                            then (Inr (HTMLResponse ''Could not retrieve user email'' 400),
                                  fs, calls)
                            else
                              (case user_email of
                                 JString email \<Rightarrow>
                                   (case save_token cfg (now env) fs email credentials of
                                      (Inl e, fs') \<Rightarrow> (Inl (RaisedHTTP e), fs', calls)
                                    | (Inr path, fs') \<Rightarrow>
                                        (Inr (HTMLResponse (success_html email) 200), fs', calls))
                               | _ \<Rightarrow>
                                   (Inl (RaisedHTTP (HTTPException 500
                                      (''Failed to save token: '' @
                                       no_attribute user_email ''replace''))),
                                    fs, calls))))))"

text \<open>
  \<^verbatim>\<open>auth_callback\<close>, lines 99 to 171. The query parameters are optional strings;
  \<^verbatim>\<open>if error:\<close> and \<^verbatim>\<open>if not code:\<close> test their truth value, which \<^verbatim>\<open>None\<close> and
  the empty string lack. \<^verbatim>\<open>state\<close> is received and not used.
\<close>

definition auth_callback ::
  "config \<Rightarrow> 'flow env \<Rightarrow> 'n filesystem \<Rightarrow> string option \<Rightarrow> string option \<Rightarrow>
     string option \<Rightarrow> html_response \<times> 'n filesystem \<times> call list" where
  "auth_callback cfg env fs code state error =
     (if error \<noteq> None \<and> error \<noteq> Some []
      then (HTMLResponse (error_html (the error)) 400, fs, [])
      else if code = None \<or> code = Some []
      then (HTMLResponse ''No authorization code received'' 400, fs, [])
      else
        (case auth_callback_try cfg env fs (the code) of
           (Inr response, fs', calls) \<Rightarrow> (response, fs', calls)
         | (Inl e, fs', calls) \<Rightarrow> (HTMLResponse (error_html (str_exn env e)) 500, fs', calls)))"

text \<open>
  \<^verbatim>\<open>generate_auth_url\<close>, lines 173 to 189. \<open>st\<close> is what the library generates for
  this call. The result is what the handler returns or raises, and the calls made.
\<close>

definition auth_kwargs :: "(string \<times> string) list" where
  "auth_kwargs =
     [(''access_type'', ''offline''),
      (''include_granted_scopes'', ''true''),
      (''prompt'', ''consent'')]"

definition generate_auth_url ::
  "config \<Rightarrow> 'flow env \<Rightarrow> string \<Rightarrow> string \<Rightarrow> (http_exception + json) \<times> call list" where
  "generate_auth_url cfg env st email =
     (case get_flow cfg env of
        Inl e \<Rightarrow>
          (Inl (HTTPException 500 (''Failed to generate auth URL: '' @ str_HTTPException env e)),
           [FromClientSecretsFile (CLIENT_SECRETS_FILE cfg)])
      | Inr flow \<Rightarrow>
          (case authorization_url env st flow auth_kwargs of
             Inl msg \<Rightarrow>
               (Inl (HTTPException 500 (''Failed to generate auth URL: '' @ msg)),
                [FromClientSecretsFile (CLIENT_SECRETS_FILE cfg), AuthorizationUrl auth_kwargs])
           | Inr (auth_url, _) \<Rightarrow>
               (Inr (JObject [(''auth_url'', JString auth_url), (''email'', JString email)]),
                [FromClientSecretsFile (CLIENT_SECRETS_FILE cfg), AuthorizationUrl auth_kwargs])))"

text \<open>
  The endpoint \<^verbatim>\<open>GET /token/{user_id}\<close>: \<^verbatim>\<open>get_token\<close> behind its route. The
  decorator on line 191 declares a path parameter, which the framework matches against
  one segment of the request path: a segment is not empty and holds no separator, and
  a request for anything else below \<^verbatim>\<open>/token/\<close> is answered 404 without a call of the
  handler. The dict the handler returns is sent with status 200 when the framework can
  render it (\<open>render\<close>, a parameter), and the request ends in status 500 when it cannot;
  an \<^verbatim>\<open>HTTPException\<close> is sent with its own status. The result is the status and, for a
  200, the body.
\<close>

definition route_accepts :: "string \<Rightarrow> bool" where
  "route_accepts user_id = (user_id \<noteq> [] \<and> CHR ''/'' \<notin> set user_id)"

definition token_endpoint ::
  "(json \<Rightarrow> bool) \<Rightarrow> config \<Rightarrow> 'n filesystem \<Rightarrow> string \<Rightarrow> nat \<times> json option" where
  "token_endpoint render cfg fs user_id =
     (if \<not> route_accepts user_id then (404, None)
      else
        (case get_token cfg fs user_id of
           Inl e \<Rightarrow> (exc_status_code e, None)
         | Inr body \<Rightarrow> if render body then (200, Some body) else (500, None)))"

section \<open>Notions the specification uses\<close>

text \<open>
  The timestamp format the specification names: ISO 8601 in the extended form
  \<^verbatim>\<open>YYYY-MM-DDTHH:MM:SS\<close>, with an optional fraction of six digits, every field a
  decimal number in its range.
\<close>

definition is_digit :: "char \<Rightarrow> bool" where
  "is_digit c = (c \<in> set ''0123456789'')"

definition digit_value :: "char \<Rightarrow> nat" where
  "digit_value c = of_char c - 48"

definition dec_value :: "string \<Rightarrow> nat" where
  "dec_value s = foldl (\<lambda>a c. 10 * a + digit_value c) 0 s"

definition iso_field :: "string \<Rightarrow> nat \<Rightarrow> nat \<Rightarrow> string" where
  "iso_field s i n = take n (drop i s)"

definition is_iso8601 :: "string \<Rightarrow> bool" where
  "is_iso8601 s =
     ((length s = 19 \<or>
       (length s = 26 \<and> s ! 19 = CHR ''.'' \<and> list_all is_digit (drop 20 s))) \<and>
      list_all is_digit (iso_field s 0 4) \<and> s ! 4 = CHR ''-'' \<and>
      list_all is_digit (iso_field s 5 2) \<and> s ! 7 = CHR ''-'' \<and>
      list_all is_digit (iso_field s 8 2) \<and> s ! 10 = CHR ''T'' \<and>
      list_all is_digit (iso_field s 11 2) \<and> s ! 13 = CHR '':'' \<and>
      list_all is_digit (iso_field s 14 2) \<and> s ! 16 = CHR '':'' \<and>
      list_all is_digit (iso_field s 17 2) \<and>
      1 \<le> dec_value (iso_field s 5 2) \<and> dec_value (iso_field s 5 2) \<le> 12 \<and>
      1 \<le> dec_value (iso_field s 8 2) \<and> dec_value (iso_field s 8 2) \<le> 31 \<and>
      dec_value (iso_field s 11 2) < 24 \<and>
      dec_value (iso_field s 14 2) < 60 \<and>
      dec_value (iso_field s 17 2) < 60)"

text \<open>
  The specification's reading of \<open>@\<close> replacement: every character is kept, except
  \<open>@\<close>, which becomes the marker.
\<close>

definition sanitized :: "string \<Rightarrow> string" where
  "sanitized user_id = concat (map (\<lambda>c. if c = CHR ''@'' then ''_at_'' else [c]) user_id)"

text \<open>
  The directory part of a stored file's path: the storage directory, closed by one
  separator unless it is empty or has one.
\<close>

definition storage_prefix :: "config \<Rightarrow> string" where
  "storage_prefix cfg =
     (if TOKEN_STORAGE_DIR cfg = [] \<or> suffix ''/'' (TOKEN_STORAGE_DIR cfg)
      then TOKEN_STORAGE_DIR cfg
      else TOKEN_STORAGE_DIR cfg @ ''/'')"

text \<open>
  A history of calls of \<^verbatim>\<open>save_token\<close>, each with its clock value, identifier and
  credentials; a call that raises still leaves its file system behind.
\<close>

fun save_all ::
  "config \<Rightarrow> 'n filesystem \<Rightarrow> (datetime \<times> string \<times> credentials) list \<Rightarrow> 'n filesystem" where
  "save_all cfg fs [] = fs"
| "save_all cfg fs ((t, user_id, credentials) # history) =
     save_all cfg (snd (save_token cfg t fs user_id credentials)) history"

section \<open>Concrete inputs\<close>

text \<open>
  A file system without links, in which a path names the file its normal form names: the
  components between separators, without the empty ones and \<open>.\<close>, and with \<open>..\<close>
  taking back the component before it. A file is an absolute-or-relative flag and the
  list of components.
\<close>

fun split_on :: "char \<Rightarrow> string \<Rightarrow> string list" where
  "split_on c [] = [[]]"
| "split_on c (x # xs) =
     (if x = c then [] # split_on c xs
      else (case split_on c xs of [] \<Rightarrow> [[x]] | y # ys \<Rightarrow> (x # y) # ys))"

definition normal_step :: "string list \<Rightarrow> string \<Rightarrow> string list" where
  "normal_step stack component =
     (if component = [] \<or> component = ''.'' then stack
      else if component = ''..'' \<and> stack \<noteq> [] \<and> last stack \<noteq> ''..'' then butlast stack
      else stack @ [component])"

definition lexical_resolve :: "string \<Rightarrow> bool \<times> string list" where
  "lexical_resolve path = (prefix ''/'' path, foldl normal_step [] (split_on CHR ''/'' path))"

text \<open>An empty storage directory in which every write succeeds.\<close>

definition empty_filesystem :: "(bool \<times> string list) filesystem" where
  "empty_filesystem =
     \<lparr>files = Map.empty, resolve = lexical_resolve, open_w = (\<lambda>path. Written)\<rparr>"

text \<open>A storage directory whose one file is not JSON.\<close>

definition corrupt_filesystem :: "(bool \<times> string list) filesystem" where
  "corrupt_filesystem =
     \<lparr>files = [(False, [''tokens'', ''u_at_x.json'']) \<mapsto>
                Unreadable ''Expecting value: line 1 column 1 (char 0)''],
      resolve = lexical_resolve,
      open_w = (\<lambda>path. Written)\<rparr>"

text \<open>A storage directory whose one file holds \<^verbatim>\<open>{"token": "{}", "created_at": NaN}\<close>.\<close>

definition nan_filesystem :: "(bool \<times> string list) filesystem" where
  "nan_filesystem =
     \<lparr>files = [(False, [''tokens'', ''u_at_x.json'']) \<mapsto>
                Document (JObject [(''token'', JString ''{}''), (''created_at'', JFloat NaN)])],
      resolve = lexical_resolve,
      open_w = (\<lambda>path. Written)\<rparr>"

definition example_now :: datetime where
  "example_now =
     \<lparr>year = 2024, month = 3, day = 9, hour = 14, minute = 5, second = 7, microsecond = 4500\<rparr>"

definition later_now :: datetime where
  "later_now =
     \<lparr>year = 2024, month = 3, day = 10, hour = 0, minute = 0, second = 0, microsecond = 0\<rparr>"

definition example_credentials :: credentials where
  "example_credentials = \<lparr>token = ''ya29.first'', to_json = ''{\"token\": \"ya29.first\"}''\<rparr>"

definition later_credentials :: credentials where
  "later_credentials = \<lparr>token = ''ya29.second'', to_json = ''{\"token\": \"ya29.second\"}''\<rparr>"

text \<open>
  A provider that accepts every code and resolves it to one address, behind a library
  that puts the keyword arguments it is given into the query of the consent URL.
\<close>

definition example_env :: "unit env" where
  "example_env =
     \<lparr>from_client_secrets_file = (\<lambda>path scopes redirect_uri. Inr ()),
      authorization_url = (\<lambda>st flow kwargs.
        Inr (''https://accounts.google.com/o/oauth2/auth?response_type=code&state='' @ st @
             concat (map (\<lambda>(k, v). ''&'' @ k @ ''='' @ v) kwargs), st)),
      fetch_token = (\<lambda>flow code. Inr example_credentials),
      httpx_get = (\<lambda>url headers. Inr (JObject [(''email'', JString ''user@example.com'')])),
      str_HTTPException = (\<lambda>e. dec (exc_status_code e) @ '': '' @ detail e),
      now = example_now\<rparr>"

section \<open>Lemmas on the library functions\<close>

lemma str_replace_char:
  "str_replace [a] new s = concat (map (\<lambda>c. if c = a then new else [c]) s)"
  by (induction s) auto

lemma digit_cases:
  "d < 10 \<Longrightarrow>
   d = 0 \<or> d = 1 \<or> d = 2 \<or> d = 3 \<or> d = 4 \<or> d = 5 \<or> d = 6 \<or> d = 7 \<or> d = 8 \<or> (d::nat) = 9"
  by arith

lemma is_digit_digit_char: "is_digit (digit_char d)"
proof -
  have "d mod 10 < 10" by simp
  then show ?thesis
    unfolding digit_char_def is_digit_def
    using digit_cases [of "d mod 10"] by auto
qed

lemma digit_value_digit_char: "d < 10 \<Longrightarrow> digit_value (digit_char d) = d"
  unfolding digit_char_def digit_value_def
  using digit_cases [of d] by auto

declare dec.simps [simp del]

lemma all_digits_dec: "list_all is_digit (dec n)"
proof (induction n rule: dec.induct)
  case (1 n)
  then show ?case
    by (subst dec.simps) (simp add: is_digit_digit_char)
qed

lemma dec_value_snoc: "dec_value (s @ [c]) = 10 * dec_value s + digit_value c"
  by (simp add: dec_value_def)

text \<open>Reading a printed number back gives the number.\<close>

lemma dec_value_dec: "dec_value (dec n) = n"
proof (induction n rule: dec.induct)
  case (1 n)
  show ?case
  proof (cases "n < 10")
    case True
    then show ?thesis
      by (subst dec.simps) (simp add: dec_value_def digit_value_digit_char)
  next
    case False
    then have "dec_value (dec n) =
        10 * dec_value (dec (n div 10)) + digit_value (digit_char (n mod 10))"
      by (subst dec.simps) (simp add: dec_value_snoc)
    also have "\<dots> = 10 * (n div 10) + n mod 10"
      using False "1.IH" by (simp add: digit_value_digit_char)
    finally show ?thesis by simp
  qed
qed

lemma length_dec_le: "n < 10 ^ k \<Longrightarrow> 0 < k \<Longrightarrow> length (dec n) \<le> k"
proof (induction n arbitrary: k rule: dec.induct)
  case (1 n)
  show ?case
  proof (cases "n < 10")
    case True
    with "1.prems" show ?thesis by (subst dec.simps) simp
  next
    case False
    obtain j where k: "k = Suc j" using "1.prems"(2) by (cases k) auto
    have "j \<noteq> 0" using False "1.prems"(1) k by (cases j) auto
    moreover have "n div 10 < 10 ^ j" using "1.prems"(1) k
      by (simp add: less_mult_imp_div_less mult.commute)
    ultimately have "length (dec (n div 10)) \<le> j"
      using "1.IH" [of j] False by simp
    then show ?thesis using False k by (subst dec.simps) simp
  qed
qed

lemma length_zero_pad: "n < 10 ^ w \<Longrightarrow> 0 < w \<Longrightarrow> length (zero_pad w n) = w"
  using length_dec_le [of n w] by (simp add: zero_pad_def)

lemma all_digits_zeros: "list_all is_digit (replicate k CHR ''0'')"
  by (induction k) (simp_all add: is_digit_def)

lemma all_digits_zero_pad: "list_all is_digit (zero_pad w n)"
  by (simp add: zero_pad_def all_digits_dec all_digits_zeros)

lemma dec_value_zeros: "dec_value (replicate k CHR ''0'' @ s) = dec_value s"
  by (induction k) (simp_all add: dec_value_def digit_value_def)

lemma dec_value_zero_pad: "dec_value (zero_pad w n) = n"
  by (simp add: zero_pad_def dec_value_zeros dec_value_dec)

lemma iso_shape:
  assumes "length y = 4" "length mo = 2" "length d = 2" "length h = 2" "length mi = 2"
    "length se = 2"
    "fr = [] \<or> (\<exists>f. fr = CHR ''.'' # f \<and> length f = 6 \<and> list_all is_digit f)"
    "list_all is_digit y" "list_all is_digit mo" "list_all is_digit d" "list_all is_digit h"
    "list_all is_digit mi" "list_all is_digit se"
    "1 \<le> dec_value mo" "dec_value mo \<le> 12" "1 \<le> dec_value d" "dec_value d \<le> 31"
    "dec_value h < 24" "dec_value mi < 60" "dec_value se < 60"
  shows "is_iso8601 (y @ ''-'' @ mo @ ''-'' @ d @ ''T'' @ h @ '':'' @ mi @ '':'' @ se @ fr)"
  using assms unfolding is_iso8601_def iso_field_def
  by (auto simp: nth_append)

text \<open>\<^verbatim>\<open>isoformat()\<close> of a \<^verbatim>\<open>datetime\<close> is a timestamp of that format.\<close>

lemma isoformat_is_iso8601: "valid_datetime d \<Longrightarrow> is_iso8601 (isoformat d)"
  unfolding isoformat_def valid_datetime_def
  by (intro iso_shape)
   (auto simp: length_zero_pad all_digits_zero_pad dec_value_zero_pad)

text \<open>Evaluating the library functions and the store at concrete inputs.\<close>

lemma replicate_numeral: "replicate (numeral k) x = x # replicate (pred_numeral k) x"
  by (simp add: numeral_eq_Suc)

lemmas isoformat_eval =
  isoformat_def zero_pad_def dec.simps digit_char_def replicate_numeral

lemmas token_path_eval =
  token_path_def token_filename_def os_path_join_def default_config_def str_replace_char
  suffix_to_prefix

lemmas resolve_eval =
  lexical_resolve_def normal_step_def

lemmas store_eval =
  get_token_def os_path_exists_def read_json_def save_token_def write_json_def token_data_def

section \<open>Lemmas on the credential store\<close>

lemma token_filename_sanitized: "token_filename user_id = sanitized user_id @ ''.json''"
  by (simp add: token_filename_def sanitized_def str_replace_char)

lemma save_token_Inr:
  assumes "save_token cfg t fs user_id c = (Inr p, fs')"
  shows "p = token_path cfg user_id"
    and "open_w fs (token_path cfg user_id) = Written"
    and "fs' = fs\<lparr>files :=
           (files fs)(resolve fs (token_path cfg user_id) \<mapsto> Document (token_data c t))\<rparr>"
  using assms
  by (auto simp: save_token_def write_json_def split: write_outcome.splits)

lemma save_token_resolve: "resolve (snd (save_token cfg t fs user_id c)) = resolve fs"
  by (simp add: save_token_def write_json_def split: write_outcome.splits)

lemma save_token_other_file:
  "n \<noteq> resolve fs (token_path cfg user_id) \<Longrightarrow>
   files (snd (save_token cfg t fs user_id c)) n = files fs n"
  by (simp add: save_token_def write_json_def split: write_outcome.splits)

lemma get_token_missing:
  "files fs (resolve fs (token_path cfg user_id)) = None \<Longrightarrow>
   get_token cfg fs user_id =
     Inr (JObject [(''has_token'', JBool False), (''message'', JString ''No token found for user'')])"
  by (simp add: get_token_def os_path_exists_def)

lemma get_token_unreadable:
  "files fs (resolve fs (token_path cfg user_id)) = Some (Unreadable msg) \<Longrightarrow>
   get_token cfg fs user_id =
     Inr (JObject [(''has_token'', JBool False),
                   (''message'', JString (''Error reading token: '' @ msg))])"
  by (simp add: get_token_def os_path_exists_def read_json_def)

lemma get_token_document:
  "files fs (resolve fs (token_path cfg user_id)) = Some (Document (JObject kvs)) \<Longrightarrow>
   get_token cfg fs user_id =
     Inr (JObject [(''has_token'', JBool True),
                   (''created_at'', case map_of kvs ''created_at'' of None \<Rightarrow> JNull | Some v \<Rightarrow> v),
                   (''message'', JString ''Token found for user'')])"
  by (simp add: get_token_def os_path_exists_def read_json_def)

lemma get_token_not_a_dict:
  "files fs (resolve fs (token_path cfg user_id)) = Some (Document j) \<Longrightarrow>
   py_type j \<noteq> ''dict'' \<Longrightarrow>
   get_token cfg fs user_id =
     Inr (JObject [(''has_token'', JBool False),
                   (''message'', JString (''Error reading token: '' @ no_attribute j ''get''))])"
  by (cases j) (simp_all add: get_token_def os_path_exists_def read_json_def)

text \<open>
  The docstring of \<^verbatim>\<open>get_token\<close> speaks of a valid token; the function reads
  \<open>created_at\<close> only, so a stored \<^verbatim>\<open>{}\<close> is a token found, created at \<^verbatim>\<open>None\<close>.
\<close>

lemma get_token_empty_object:
  "files fs (resolve fs (token_path cfg user_id)) = Some (Document (JObject [])) \<Longrightarrow>
   get_token cfg fs user_id =
     Inr (JObject [(''has_token'', JBool True), (''created_at'', JNull),
                   (''message'', JString ''Token found for user'')])"
  by (simp add: get_token_document)

lemma lookup_after_save:
  assumes "save_token cfg t fs user_id c = (Inr p, fs')"
  shows "get_token cfg fs' user_id =
      Inr (JObject [(''has_token'', JBool True),
                    (''created_at'', JString (isoformat t)),
                    (''message'', JString ''Token found for user'')])"
proof -
  have "files fs' (resolve fs' (token_path cfg user_id)) = Some (Document (token_data c t))"
    using save_token_Inr(3) [OF assms] by simp
  then show ?thesis
    using get_token_document [of fs' cfg user_id] by (simp add: token_data_def)
qed

lemma save_all_resolve: "resolve (save_all cfg fs history) = resolve fs"
  by (induction history arbitrary: fs) (auto simp: save_token_resolve)

lemma save_all_other_file:
  "\<forall>(t, u, c) \<in> set history. resolve fs (token_path cfg u) \<noteq> n \<Longrightarrow>
   files (save_all cfg fs history) n = files fs n"
proof (induction history arbitrary: fs)
  case Nil
  then show ?case by simp
next
  case (Cons x history)
  obtain t u c where x: "x = (t, u, c)" by (cases x) auto
  let ?fs = "snd (save_token cfg t fs u c)"
  from Cons.prems x have "n \<noteq> resolve fs (token_path cfg u)" by auto
  then have "files ?fs n = files fs n"
    by (rule save_token_other_file)
  moreover have "files (save_all cfg ?fs history) n = files ?fs n"
    using Cons.prems by (intro Cons.IH) (simp add: save_token_resolve)
  ultimately show ?case using x by simp
qed

lemma get_token_local:
  "files fs1 (resolve fs1 (token_path cfg user_id)) =
   files fs2 (resolve fs2 (token_path cfg user_id)) \<Longrightarrow>
   get_token cfg fs1 user_id = get_token cfg fs2 user_id"
  by (simp add: get_token_def os_path_exists_def read_json_def)

lemma token_endpoint_200:
  "route_accepts user_id \<Longrightarrow> get_token cfg fs user_id = Inr body \<Longrightarrow> render body \<Longrightarrow>
   token_endpoint render cfg fs user_id = (200, Some body)"
  by (simp add: token_endpoint_def)

lemma token_endpoint_flat:
  "route_accepts user_id \<Longrightarrow> renders_flat render \<Longrightarrow> get_token cfg fs user_id = Inr body \<Longrightarrow>
   flat_object body \<Longrightarrow> token_endpoint render cfg fs user_id = (200, Some body)"
  by (simp add: token_endpoint_def renders_flat_def)

lemma plain_renderable: "plain j \<Longrightarrow> renderable j"
  by (induction j rule: plain.induct) simp_all

lemma renders_flat_renderable: "renders_flat renderable"
proof -
  have "renderable body" if "flat_object body" for body
  proof (cases body)
    case (JObject kvs)
    with that have "list_all (\<lambda>kv. plain (snd kv)) kvs" by simp
    then have "list_all (\<lambda>kv. renderable (snd kv)) kvs"
      by (simp add: list_all_iff plain_renderable)
    with JObject show ?thesis by simp
  qed (use that in simp_all)
  then show ?thesis by (simp add: renders_flat_def)
qed

lemma isoformat_example_now: "isoformat example_now = ''2024-03-09T14:05:07.004500''"
  by (simp add: example_now_def isoformat_eval)

lemma isoformat_later_now: "isoformat later_now = ''2024-03-10T00:00:00''"
  by (simp add: later_now_def isoformat_eval)

lemma at_notin_sanitized: "CHR ''@'' \<notin> set (sanitized user_id)"
  by (induction user_id) (simp_all add: sanitized_def)

lemma slash_notin_sanitized:
  "CHR ''/'' \<notin> set user_id \<Longrightarrow> CHR ''/'' \<notin> set (sanitized user_id)"
  by (induction user_id) (simp_all add: sanitized_def)

lemma token_filename_no_slash:
  "\<not> prefix ''/'' user_id \<Longrightarrow> \<not> prefix ''/'' (token_filename user_id)"
  by (cases user_id) (simp_all add: token_filename_sanitized sanitized_def)

lemma token_path_relative:
  "\<not> prefix ''/'' user_id \<Longrightarrow>
   token_path cfg user_id = storage_prefix cfg @ sanitized user_id @ ''.json''"
  using token_filename_no_slash [of user_id]
  by (simp add: token_path_def os_path_join_def storage_prefix_def token_filename_sanitized)

lemma json_name_not_dots: "xs @ ''.json'' \<noteq> ''.'' \<and> xs @ ''.json'' \<noteq> ''..''"
proof (intro conjI notI)
  assume "xs @ ''.json'' = ''.''"
  then have "length (xs @ ''.json'') = length ''.''" by (rule arg_cong)
  then show False by simp
next
  assume "xs @ ''.json'' = ''..''"
  then have "length (xs @ ''.json'') = length ''..''" by (rule arg_cong)
  then show False by simp
qed

lemma ex_paths:
  "token_path default_config ''a@b'' = ''./tokens/a_at_b.json''"
  "token_path default_config ''./a@b'' = ''./tokens/./a_at_b.json''"
  "lexical_resolve ''./tokens/./a_at_b.json'' = (False, [''tokens'', ''a_at_b.json''])"
  "lexical_resolve ''./tokens/a_at_b.json'' = (False, [''tokens'', ''a_at_b.json''])"
  "lexical_resolve ''./tokens/../escape_at_x.json'' = (False, [''escape_at_x.json''])"
  by (simp_all add: token_path_eval resolve_eval)

section \<open>Lemmas on the handlers\<close>

lemma sublist_error_html: "sublist e (error_html e)"
  unfolding error_html_def sublist_def by (metis append.assoc)

lemma example_callback:
  "auth_callback default_config example_env empty_filesystem (Some ''4/0AbC'') None (Some []) =
     (HTMLResponse (success_html ''user@example.com'') 200,
      empty_filesystem\<lparr>files := [(False, [''tokens'', ''user_at_example.com.json'']) \<mapsto>
         Document (token_data example_credentials example_now)]\<rparr>,
      [FromClientSecretsFile ''../.gauth.json'', FetchToken ''4/0AbC'',
       HttpxGet userinfo_url [(''Authorization'', ''Bearer ya29.first'')]])"
  by (simp add: auth_callback_def auth_callback_try_def get_flow_def get_user_info_def
      example_env_def save_token_def write_json_def empty_filesystem_def token_path_eval
      resolve_eval userinfo_headers_def example_credentials_def)

lemma example_generate:
  "generate_auth_url default_config example_env ''Zx3'' ''user@example.com'' =
     (Inr (JObject
        [(''auth_url'', JString
           ''https://accounts.google.com/o/oauth2/auth?response_type=code&state=Zx3&access_type=offline&include_granted_scopes=true&prompt=consent''),
         (''email'', JString ''user@example.com'')]),
      [FromClientSecretsFile ''../.gauth.json'',
       AuthorizationUrl [(''access_type'', ''offline''), (''include_granted_scopes'', ''true''),
         (''prompt'', ''consent'')]])"
  by (simp add: generate_auth_url_def get_flow_def example_env_def auth_kwargs_def
      default_config_def)

lemma example_lookup:
  assumes "lexical_resolve (token_path default_config u) = (False, [''tokens'', ''a_at_b.json''])"
  shows "get_token default_config
     (snd (save_token default_config example_now empty_filesystem u example_credentials))
     ''a@b'' =
   Inr (JObject [(''has_token'', JBool True),
                 (''created_at'', JString ''2024-03-09T14:05:07.004500''),
                 (''message'', JString ''Token found for user'')])"
  using assms
  by (simp add: store_eval empty_filesystem_def ex_paths isoformat_example_now)

section \<open>The claims\<close>

text \<open>
  C1, as amended. Take a store with no file at the place the identifier's path names,
  and any history of saves none of which writes to a path naming that place: then
  \<^verbatim>\<open>get_token\<close> answers \<open>has_token\<close> false, and so does \<^verbatim>\<open>GET /token/{user_id}\<close>,
  with status 200, when the route accepts the identifier. After a successful save for
  the identifier, the file its path names holds the record just written, and the answer
  is \<open>has_token\<close> true with the \<open>created_at\<close> of that record. Of the framework the
  theorem asks that it renders a flat object.
\<close>

theorem get_token_after_saves:
  "(files fs (resolve fs (token_path cfg user_id)) = None \<and>
    (\<forall>(t, u, c) \<in> set history.
       resolve fs (token_path cfg u) \<noteq> resolve fs (token_path cfg user_id)) \<longrightarrow>
    get_token cfg (save_all cfg fs history) user_id =
      Inr (JObject [(''has_token'', JBool False),
                    (''message'', JString ''No token found for user'')]) \<and>
    (route_accepts user_id \<and> renders_flat render \<longrightarrow>
     token_endpoint render cfg (save_all cfg fs history) user_id =
       (200, Some (JObject [(''has_token'', JBool False),
                            (''message'', JString ''No token found for user'')])))) \<and>
   (save_token cfg t fs user_id c = (Inr p, fs') \<longrightarrow>
    files fs' (resolve fs' (token_path cfg user_id)) = Some (Document (token_data c t)) \<and>
    dict_get (token_data c t) ''created_at'' = Inr (JString (isoformat t)) \<and>
    get_token cfg fs' user_id =
      Inr (JObject [(''has_token'', JBool True),
                    (''created_at'', JString (isoformat t)),
                    (''message'', JString ''Token found for user'')]) \<and>
    (route_accepts user_id \<and> renders_flat render \<longrightarrow>
     token_endpoint render cfg fs' user_id =
       (200, Some (JObject [(''has_token'', JBool True),
                            (''created_at'', JString (isoformat t)),
                            (''message'', JString ''Token found for user'')]))))"
proof (intro conjI impI)
  assume a: "files fs (resolve fs (token_path cfg user_id)) = None \<and>
    (\<forall>(t, u, c) \<in> set history.
       resolve fs (token_path cfg u) \<noteq> resolve fs (token_path cfg user_id))"
  let ?fs = "save_all cfg fs history"
  have "files ?fs (resolve fs (token_path cfg user_id)) = None"
    using a save_all_other_file [of history fs cfg "resolve fs (token_path cfg user_id)"]
    by simp
  then have "files ?fs (resolve ?fs (token_path cfg user_id)) = None"
    by (simp add: save_all_resolve)
  then show g: "get_token cfg ?fs user_id =
      Inr (JObject [(''has_token'', JBool False),
                    (''message'', JString ''No token found for user'')])"
    by (rule get_token_missing)
  assume "route_accepts user_id \<and> renders_flat render"
  then show "token_endpoint render cfg ?fs user_id =
       (200, Some (JObject [(''has_token'', JBool False),
                            (''message'', JString ''No token found for user'')]))"
    using g by (simp add: token_endpoint_flat)
next
  assume s: "save_token cfg t fs user_id c = (Inr p, fs')"
  show "files fs' (resolve fs' (token_path cfg user_id)) = Some (Document (token_data c t))"
    using save_token_Inr(3) [OF s] by simp
  show "dict_get (token_data c t) ''created_at'' = Inr (JString (isoformat t))"
    by (simp add: token_data_def)
  show g: "get_token cfg fs' user_id =
      Inr (JObject [(''has_token'', JBool True),
                    (''created_at'', JString (isoformat t)),
                    (''message'', JString ''Token found for user'')])"
    using s by (rule lookup_after_save)
  assume "route_accepts user_id \<and> renders_flat render"
  then show "token_endpoint render cfg fs' user_id =
       (200, Some (JObject [(''has_token'', JBool True),
                            (''created_at'', JString (isoformat t)),
                            (''message'', JString ''Token found for user'')]))"
    using g by (simp add: token_endpoint_flat)
qed

text \<open>
  The amended C1 at a fresh store, one save for another address, and one for this one.
\<close>

theorem get_token_after_saves_witness:
  "token_endpoint renderable default_config
     (save_all default_config empty_filesystem
        [(example_now, ''other@example.com'', example_credentials)])
     ''user@example.com'' =
   (200, Some (JObject [(''has_token'', JBool False),
                        (''message'', JString ''No token found for user'')])) \<and>
   token_endpoint renderable default_config
     (snd (save_token default_config later_now empty_filesystem ''user@example.com''
             later_credentials))
     ''user@example.com'' =
   (200, Some (JObject [(''has_token'', JBool True),
                        (''created_at'', JString ''2024-03-10T00:00:00''),
                        (''message'', JString ''Token found for user'')]))"
proof -
  have h1: "files empty_filesystem
      (resolve empty_filesystem (token_path default_config ''user@example.com'')) = None \<and>
    (\<forall>(t, u, c) \<in> set [(example_now, ''other@example.com'', example_credentials)].
       resolve empty_filesystem (token_path default_config u) \<noteq>
       resolve empty_filesystem (token_path default_config ''user@example.com''))"
    by (simp add: empty_filesystem_def token_path_eval resolve_eval)
  have h2: "save_token default_config later_now empty_filesystem ''user@example.com''
      later_credentials =
    (Inr ''./tokens/user_at_example.com.json'',
     snd (save_token default_config later_now empty_filesystem ''user@example.com''
            later_credentials))"
    by (simp add: save_token_def write_json_def empty_filesystem_def token_path_eval)
  have h3: "route_accepts ''user@example.com'' \<and> renders_flat renderable"
    by (simp add: route_accepts_def renders_flat_renderable)
  show ?thesis
    using get_token_after_saves
      [where fs = empty_filesystem and cfg = default_config and user_id = "''user@example.com''"
         and render = renderable
         and history = "[(example_now, ''other@example.com'', example_credentials)]"
         and t = later_now and c = later_credentials
         and p = "''./tokens/user_at_example.com.json''"
         and fs' = "snd (save_token default_config later_now empty_filesystem
                      ''user@example.com'' later_credentials)"]
      h1 h2 h3
    by (simp add: isoformat_later_now)
qed

text \<open>
  C1 as stated fails. With no save for \<open>a@b\<close>, a save for \<open>a_at_b\<close> makes the lookup
  of \<open>a@b\<close> answer \<open>has_token\<close> true, and so does a save for \<open>./a@b\<close>, whose path is
  another spelling of the same file. An identifier with a separator, such as \<open>a/b\<close>, is
  not routed to the handler: the answer is 404, not a record.
\<close>

theorem get_token_collision_counterexample:
  "''a@b'' \<noteq> ''a_at_b'' \<and>
   token_endpoint renderable default_config
     (save_all default_config empty_filesystem [(example_now, ''a_at_b'', example_credentials)])
     ''a@b'' =
   (200, Some (JObject [(''has_token'', JBool True),
                        (''created_at'', JString ''2024-03-09T14:05:07.004500''),
                        (''message'', JString ''Token found for user'')])) \<and>
   ''a@b'' \<noteq> ''./a@b'' \<and>
   token_endpoint renderable default_config
     (save_all default_config empty_filesystem [(example_now, ''./a@b'', example_credentials)])
     ''a@b'' =
   (200, Some (JObject [(''has_token'', JBool True),
                        (''created_at'', JString ''2024-03-09T14:05:07.004500''),
                        (''message'', JString ''Token found for user'')])) \<and>
   token_endpoint renderable default_config empty_filesystem ''a/b'' = (404, None)"
proof -
  have "lexical_resolve (token_path default_config ''a_at_b'') =
      (False, [''tokens'', ''a_at_b.json''])"
    by (simp add: token_path_eval resolve_eval)
  moreover have "lexical_resolve (token_path default_config ''./a@b'') =
      (False, [''tokens'', ''a_at_b.json''])"
    by (simp add: ex_paths)
  moreover have "route_accepts ''a@b''" "\<not> route_accepts ''a/b''"
    by (simp_all add: route_accepts_def)
  ultimately show ?thesis
    by (simp add: token_endpoint_def example_lookup)
qed

text \<open>
  C2. Two successful saves for one identifier write the same path; afterwards the store is
  the original one with the single file that path names set to the record of the second
  save, whose \<open>token\<close> is the second credential's serialized form.
\<close>

theorem save_token_twice:
  assumes "save_token cfg t1 fs user_id c1 = (Inr p1, fs1)"
    and "save_token cfg t2 fs1 user_id c2 = (Inr p2, fs2)"
  shows "p1 = token_path cfg user_id \<and> p2 = p1 \<and>
    files fs2 = (files fs)(resolve fs p1 \<mapsto> Document (token_data c2 t2)) \<and>
    dom (files fs2) = insert (resolve fs p1) (dom (files fs)) \<and>
    dict_get (token_data c2 t2) ''token'' = Inr (JString (to_json c2))"
proof -
  have p: "p1 = token_path cfg user_id" "p2 = token_path cfg user_id"
    using assms by (simp_all add: save_token_Inr(1))
  have f1: "fs1 = fs\<lparr>files := (files fs)(resolve fs p1 \<mapsto> Document (token_data c1 t1))\<rparr>"
    using save_token_Inr(3) [OF assms(1)] p by simp
  then have r: "resolve fs1 = resolve fs" by simp
  have "files fs2 = (files fs1)(resolve fs1 p1 \<mapsto> Document (token_data c2 t2))"
    using save_token_Inr(3) [OF assms(2)] p by simp
  with f1 r have f: "files fs2 = (files fs)(resolve fs p1 \<mapsto> Document (token_data c2 t2))"
    by simp
  then have "dom (files fs2) = insert (resolve fs p1) (dom (files fs))" by simp
  with p f show ?thesis by (simp add: token_data_def)
qed

text \<open>
  C2 in a fresh store: one file, holding the later credentials.
\<close>

theorem save_token_twice_witness:
  "files (snd (save_token default_config later_now
       (snd (save_token default_config example_now empty_filesystem ''user@example.com''
          example_credentials))
       ''user@example.com'' later_credentials)) =
     [(False, [''tokens'', ''user_at_example.com.json'']) \<mapsto>
        Document (token_data later_credentials later_now)]"
proof -
  let ?fs1 = "snd (save_token default_config example_now empty_filesystem ''user@example.com''
          example_credentials)"
  let ?fs2 = "snd (save_token default_config later_now ?fs1 ''user@example.com'' later_credentials)"
  have h1: "save_token default_config example_now empty_filesystem ''user@example.com''
      example_credentials = (Inr ''./tokens/user_at_example.com.json'', ?fs1)"
    by (simp add: save_token_def write_json_def empty_filesystem_def token_path_eval)
  have h2: "save_token default_config later_now ?fs1 ''user@example.com'' later_credentials =
      (Inr ''./tokens/user_at_example.com.json'', ?fs2)"
    by (simp add: save_token_def write_json_def empty_filesystem_def token_path_eval)
  show ?thesis
    using save_token_twice [OF h1 h2] by (simp add: empty_filesystem_def resolve_eval)
qed

text \<open>
  C3. The file name computed on lines 71 and 194 is the identifier with every \<open>@\<close>
  replaced by \<open>_at_\<close>, followed by \<open>.json\<close>; it holds no \<open>@\<close>. Both the save and
  the lookup join it to the storage directory: a successful save returns that path, and
  the lookup reads the store at the file that path names only.
\<close>

theorem token_filename_no_at:
  "token_filename user_id = sanitized user_id @ ''.json'' \<and>
   CHR ''@'' \<notin> set (token_filename user_id) \<and>
   token_path cfg user_id = os_path_join (TOKEN_STORAGE_DIR cfg) (token_filename user_id) \<and>
   (save_token cfg t fs user_id c = (Inr p, fs') \<longrightarrow> p = token_path cfg user_id) \<and>
   (files fs1 (resolve fs1 (token_path cfg user_id)) =
    files fs2 (resolve fs2 (token_path cfg user_id)) \<longrightarrow>
    get_token cfg fs1 user_id = get_token cfg fs2 user_id)"
proof (intro conjI impI)
  show "token_filename user_id = sanitized user_id @ ''.json''"
    by (rule token_filename_sanitized)
  then show "CHR ''@'' \<notin> set (token_filename user_id)"
    by (simp add: at_notin_sanitized)
  show "token_path cfg user_id = os_path_join (TOKEN_STORAGE_DIR cfg) (token_filename user_id)"
    by (simp add: token_path_def)
next
  assume "save_token cfg t fs user_id c = (Inr p, fs')"
  then show "p = token_path cfg user_id"
    by (rule save_token_Inr(1))
next
  assume "files fs1 (resolve fs1 (token_path cfg user_id)) =
    files fs2 (resolve fs2 (token_path cfg user_id))"
  then show "get_token cfg fs1 user_id = get_token cfg fs2 user_id"
    by (rule get_token_local)
qed

text \<open>
  C3 at an identifier with two \<open>@\<close>.
\<close>

theorem token_filename_no_at_witness:
  "token_filename ''a@b@c'' = ''a_at_b_at_c.json'' \<and>
   CHR ''@'' \<notin> set (token_filename ''a@b@c'') \<and>
   fst (save_token default_config example_now empty_filesystem ''a@b@c'' example_credentials) =
     Inr (token_path default_config ''a@b@c'') \<and>
   get_token default_config corrupt_filesystem ''a@b@c'' =
     get_token default_config empty_filesystem ''a@b@c''"
proof -
  let ?r = "save_token default_config example_now empty_filesystem ''a@b@c'' example_credentials"
  have h1: "?r = (Inr ''./tokens/a_at_b_at_c.json'', snd ?r)"
    by (simp add: save_token_def write_json_def empty_filesystem_def token_path_eval)
  have h2: "files corrupt_filesystem
        (resolve corrupt_filesystem (token_path default_config ''a@b@c'')) =
      files empty_filesystem (resolve empty_filesystem (token_path default_config ''a@b@c''))"
    by (simp add: corrupt_filesystem_def empty_filesystem_def token_path_eval resolve_eval)
  have t: "token_filename ''a@b@c'' = sanitized ''a@b@c'' @ ''.json'' \<and>
      CHR ''@'' \<notin> set (token_filename ''a@b@c'') \<and>
      ''./tokens/a_at_b_at_c.json'' = token_path default_config ''a@b@c'' \<and>
      get_token default_config corrupt_filesystem ''a@b@c'' =
        get_token default_config empty_filesystem ''a@b@c''"
    using token_filename_no_at [of "''a@b@c''" default_config example_now empty_filesystem
        example_credentials "''./tokens/a_at_b_at_c.json''" "snd ?r" corrupt_filesystem
        empty_filesystem] h1 h2
    by blast
  have "fst ?r = Inr ''./tokens/a_at_b_at_c.json''"
    by (subst h1) simp
  with t show ?thesis
    by (simp add: sanitized_def)
qed

text \<open>
  C4, as amended. When the \<open>error\<close> parameter is present and not empty, the callback
  answers with status 400 and a page that contains the parameter's value, whatever
  \<open>code\<close> is, without any call to the OAuth library or the network and without
  touching the store.
\<close>

theorem auth_callback_error_param:
  assumes "e \<noteq> []"
  shows "auth_callback cfg env fs code state (Some e) =
           (HTMLResponse (error_html e) 400, fs, []) \<and>
         sublist e (error_html e)"
  using assms by (simp add: auth_callback_def sublist_error_html)

text \<open>
  The amended C4 at \<open>error=access_denied\<close> together with a code.
\<close>

theorem auth_callback_error_param_witness:
  "auth_callback default_config example_env empty_filesystem (Some ''4/0AbC'') None
     (Some ''access_denied'') =
     (HTMLResponse (error_html ''access_denied'') 400, empty_filesystem, []) \<and>
   sublist ''access_denied'' (error_html ''access_denied'')"
proof -
  have h: "''access_denied'' \<noteq> []" by simp
  show ?thesis
    using auth_callback_error_param [OF h, of default_config example_env empty_filesystem
      "Some ''4/0AbC''" None]
    by simp
qed

text \<open>
  C4 as stated fails: \<open>if error:\<close> on line 102 tests the truth value, so with an
  \<open>error\<close> parameter that is present and empty and a code, the exchange is performed and
  the answer is the success page.
\<close>

theorem auth_callback_empty_error_counterexample:
  "status_code (fst (auth_callback default_config example_env empty_filesystem
     (Some ''4/0AbC'') None (Some []))) = 200 \<and>
   FetchToken ''4/0AbC'' \<in> set (snd (snd (auth_callback default_config example_env
     empty_filesystem (Some ''4/0AbC'') None (Some []))))"
  by (simp add: example_callback)

text \<open>
  C5. With neither an \<open>error\<close> nor a \<open>code\<close> parameter the callback answers with
  status 400, and makes no call: the flow is not constructed and no token is fetched.
\<close>

theorem auth_callback_no_code:
  "auth_callback cfg env fs None state None =
     (HTMLResponse ''No authorization code received'' 400, fs, [])"
  by (simp add: auth_callback_def)

text \<open>
  C6, as amended. \<^verbatim>\<open>get_token\<close> returns a body in every store and for every
  identifier, and never raises. When the file is missing the body is \<open>has_token\<close> false
  and a message; when opening or parsing the file raises, or the document is not an
  object, the body has the same two members and differs only in the message, which
  carries the text of the exception. For an identifier the route accepts, and a framework
  that renders a flat object, the endpoint sends each of these bodies with status 200.
  When a stored object is found, the handler returns its \<open>created_at\<close> unchecked, and the
  endpoint answers 200 whenever the framework renders that body, as it does when
  \<open>created_at\<close> is missing, \<^verbatim>\<open>None\<close>, a bool, an int, a finite float or a string.
\<close>

theorem get_token_never_raises:
  "(\<exists>body. get_token cfg fs user_id = Inr body) \<and>
   (files fs (resolve fs (token_path cfg user_id)) = None \<longrightarrow>
    get_token cfg fs user_id =
      Inr (JObject [(''has_token'', JBool False),
                    (''message'', JString ''No token found for user'')]) \<and>
    (route_accepts user_id \<and> renders_flat render \<longrightarrow>
     token_endpoint render cfg fs user_id =
       (200, Some (JObject [(''has_token'', JBool False),
                            (''message'', JString ''No token found for user'')])))) \<and>
   (files fs (resolve fs (token_path cfg user_id)) = Some (Unreadable msg) \<longrightarrow>
    get_token cfg fs user_id =
      Inr (JObject [(''has_token'', JBool False),
                    (''message'', JString (''Error reading token: '' @ msg))]) \<and>
    (route_accepts user_id \<and> renders_flat render \<longrightarrow>
     token_endpoint render cfg fs user_id =
       (200, Some (JObject [(''has_token'', JBool False),
                            (''message'', JString (''Error reading token: '' @ msg))])))) \<and>
   (files fs (resolve fs (token_path cfg user_id)) = Some (Document j) \<and>
    py_type j \<noteq> ''dict'' \<longrightarrow>
    get_token cfg fs user_id =
      Inr (JObject [(''has_token'', JBool False),
                    (''message'', JString (''Error reading token: '' @ no_attribute j ''get''))]) \<and>
    (route_accepts user_id \<and> renders_flat render \<longrightarrow>
     token_endpoint render cfg fs user_id =
       (200, Some (JObject [(''has_token'', JBool False),
                            (''message'',
                             JString (''Error reading token: '' @ no_attribute j ''get''))])))) \<and>
   (files fs (resolve fs (token_path cfg user_id)) = Some (Document (JObject kvs)) \<and>
    dict_get (JObject kvs) ''created_at'' = Inr created_at \<and> route_accepts user_id \<and>
    (render (JObject [(''has_token'', JBool True),
                      (''created_at'', created_at),
                      (''message'', JString ''Token found for user'')]) \<or>
     plain created_at \<and> renders_flat render) \<longrightarrow>
    token_endpoint render cfg fs user_id =
      (200, Some (JObject [(''has_token'', JBool True),
                           (''created_at'', created_at),
                           (''message'', JString ''Token found for user'')])))"
proof (intro conjI impI)
  show "\<exists>body. get_token cfg fs user_id = Inr body"
    by (simp add: get_token_def split: sum.splits)
next
  assume a: "files fs (resolve fs (token_path cfg user_id)) = None"
  then show g: "get_token cfg fs user_id =
      Inr (JObject [(''has_token'', JBool False),
                    (''message'', JString ''No token found for user'')])"
    by (rule get_token_missing)
  assume "route_accepts user_id \<and> renders_flat render"
  then show "token_endpoint render cfg fs user_id =
       (200, Some (JObject [(''has_token'', JBool False),
                            (''message'', JString ''No token found for user'')]))"
    using g by (simp add: token_endpoint_flat)
next
  assume a: "files fs (resolve fs (token_path cfg user_id)) = Some (Unreadable msg)"
  then show g: "get_token cfg fs user_id =
      Inr (JObject [(''has_token'', JBool False),
                    (''message'', JString (''Error reading token: '' @ msg))])"
    by (rule get_token_unreadable)
  assume "route_accepts user_id \<and> renders_flat render"
  then show "token_endpoint render cfg fs user_id =
       (200, Some (JObject [(''has_token'', JBool False),
                            (''message'', JString (''Error reading token: '' @ msg))]))"
    using g by (simp add: token_endpoint_flat)
next
  assume a: "files fs (resolve fs (token_path cfg user_id)) = Some (Document j) \<and>
    py_type j \<noteq> ''dict''"
  then show g: "get_token cfg fs user_id =
      Inr (JObject [(''has_token'', JBool False),
                    (''message'', JString (''Error reading token: '' @ no_attribute j ''get''))])"
    by (simp add: get_token_not_a_dict)
  assume "route_accepts user_id \<and> renders_flat render"
  then show "token_endpoint render cfg fs user_id =
       (200, Some (JObject [(''has_token'', JBool False),
                            (''message'',
                             JString (''Error reading token: '' @ no_attribute j ''get''))]))"
    using g by (simp add: token_endpoint_flat)
next
  let ?body = "JObject [(''has_token'', JBool True),
                        (''created_at'', created_at),
                        (''message'', JString ''Token found for user'')]"
  assume a: "files fs (resolve fs (token_path cfg user_id)) = Some (Document (JObject kvs)) \<and>
    dict_get (JObject kvs) ''created_at'' = Inr created_at \<and> route_accepts user_id \<and>
    (render ?body \<or> plain created_at \<and> renders_flat render)"
  then have g: "get_token cfg fs user_id = Inr ?body"
    using get_token_document [of fs cfg user_id kvs] by auto
  have "render ?body"
    using a by (auto simp: renders_flat_def)
  with a g show "token_endpoint render cfg fs user_id = (200, Some ?body)"
    by (simp add: token_endpoint_200)
qed

text \<open>
  The amended C6 at an empty store and at a store whose file for the identifier is not
  JSON.
\<close>

theorem get_token_never_raises_witness:
  "token_endpoint renderable default_config empty_filesystem ''u@x'' =
     (200, Some (JObject [(''has_token'', JBool False),
                          (''message'', JString ''No token found for user'')])) \<and>
   token_endpoint renderable default_config corrupt_filesystem ''u@x'' =
     (200, Some (JObject [(''has_token'', JBool False),
                          (''message'', JString
                             ''Error reading token: Expecting value: line 1 column 1 (char 0)'')]))"
proof -
  have h1: "files empty_filesystem (resolve empty_filesystem (token_path default_config ''u@x''))
      = None"
    by (simp add: empty_filesystem_def)
  have h2: "files corrupt_filesystem
      (resolve corrupt_filesystem (token_path default_config ''u@x'')) =
      Some (Unreadable ''Expecting value: line 1 column 1 (char 0)'')"
    by (simp add: corrupt_filesystem_def token_path_eval resolve_eval)
  have h3: "route_accepts ''u@x'' \<and> renders_flat renderable"
    by (simp add: route_accepts_def renders_flat_renderable)
  show ?thesis
    using get_token_never_raises [of default_config empty_filesystem "''u@x''" renderable] h1
      get_token_never_raises [of default_config corrupt_filesystem "''u@x''" renderable
        "''Expecting value: line 1 column 1 (char 0)''"] h2 h3
    by simp
qed

text \<open>
  C6 as stated fails. With a stored \<^verbatim>\<open>{"token": "{}", "created_at": NaN}\<close> the handler
  returns the \<^verbatim>\<open>NaN\<close>, which the framework refuses to render: the request ends in
  status 500. For the identifier \<open>a/b\<close> no route matches, and the answer is 404.
\<close>

theorem token_endpoint_error_counterexample:
  "token_endpoint renderable default_config nan_filesystem ''u@x'' = (500, None) \<and>
   token_endpoint renderable default_config empty_filesystem ''a/b'' = (404, None)"
  by (simp add: token_endpoint_def route_accepts_def store_eval nan_filesystem_def
      token_path_eval resolve_eval)

text \<open>
  C7, as amended. For an identifier with no path separator, a successful save writes one
  file directly in the storage directory: its path is the storage directory, one
  separator and a file name, which is the sanitized identifier followed by \<open>.json\<close>,
  holds no separator and is neither \<open>.\<close> nor \<open>..\<close>. Its content is the object with the
  two members \<open>token\<close>, the serialized credentials, and \<open>created_at\<close>, an ISO 8601
  timestamp. No other file changes.
\<close>

theorem save_token_layout:
  assumes "save_token cfg t fs user_id c = (Inr p, fs')"
    and "CHR ''/'' \<notin> set user_id"
    and "valid_datetime t"
  shows "p = storage_prefix cfg @ sanitized user_id @ ''.json'' \<and>
    CHR ''/'' \<notin> set (sanitized user_id @ ''.json'') \<and>
    sanitized user_id @ ''.json'' \<noteq> ''.'' \<and> sanitized user_id @ ''.json'' \<noteq> ''..'' \<and>
    files fs' = (files fs)(resolve fs p \<mapsto> Document (JObject
       [(''token'', JString (to_json c)), (''created_at'', JString (isoformat t))])) \<and>
    resolve fs' = resolve fs \<and>
    is_iso8601 (isoformat t)"
proof -
  have "\<not> prefix ''/'' user_id"
    using assms(2) by (cases user_id) auto
  then have tp: "token_path cfg user_id = storage_prefix cfg @ sanitized user_id @ ''.json''"
    by (rule token_path_relative)
  have p: "p = token_path cfg user_id"
    using assms(1) by (rule save_token_Inr(1))
  have fs': "fs' = fs\<lparr>files :=
      (files fs)(resolve fs (token_path cfg user_id) \<mapsto> Document (token_data c t))\<rparr>"
    using assms(1) by (rule save_token_Inr(3))
  have "CHR ''/'' \<notin> set (sanitized user_id @ ''.json'')"
    using assms(2) by (simp add: slash_notin_sanitized)
  with p tp fs' show ?thesis
    using assms(3) json_name_not_dots [of "sanitized user_id"]
    by (simp add: token_data_def isoformat_is_iso8601)
qed

text \<open>
  The amended C7 in a fresh store.
\<close>

theorem save_token_layout_witness:
  "files (snd (save_token default_config example_now empty_filesystem ''user@example.com''
            example_credentials)) =
     [(False, [''tokens'', ''user_at_example.com.json'']) \<mapsto> Document (JObject
        [(''token'', JString ''{\"token\": \"ya29.first\"}''),
         (''created_at'', JString ''2024-03-09T14:05:07.004500'')])] \<and>
   is_iso8601 ''2024-03-09T14:05:07.004500''"
proof -
  let ?fs' = "snd (save_token default_config example_now empty_filesystem ''user@example.com''
            example_credentials)"
  have h1: "save_token default_config example_now empty_filesystem ''user@example.com''
      example_credentials = (Inr ''./tokens/user_at_example.com.json'', ?fs')"
    by (simp add: save_token_def write_json_def empty_filesystem_def token_path_eval)
  have h2: "CHR ''/'' \<notin> set ''user@example.com''" by simp
  have h3: "valid_datetime example_now"
    by (simp add: valid_datetime_def example_now_def)
  show ?thesis
    using save_token_layout [OF h1 h2 h3]
    by (simp add: empty_filesystem_def isoformat_example_now example_credentials_def
        resolve_eval)
qed

text \<open>
  C7 as stated fails. \<^verbatim>\<open>os.path.join\<close> drops the storage directory when the file
  name starts with the separator, so a save for \<open>/tmp/x\<close> writes \<open>/tmp/x.json\<close>; and a
  save for \<open>../escape@x\<close> writes a path that names \<open>escape_at_x.json\<close> in the parent
  of the storage directory. Neither file is under \<open>./tokens\<close>.
\<close>

theorem save_token_absolute_counterexample:
  "fst (save_token default_config example_now empty_filesystem ''/tmp/x'' example_credentials) =
     Inr ''/tmp/x.json'' \<and>
   \<not> prefix (TOKEN_STORAGE_DIR default_config) ''/tmp/x.json'' \<and>
   fst (save_token default_config example_now empty_filesystem ''../escape@x''
          example_credentials) =
     Inr ''./tokens/../escape_at_x.json'' \<and>
   resolve empty_filesystem ''./tokens/../escape_at_x.json'' = (False, [''escape_at_x.json''])"
  by (simp add: save_token_def write_json_def empty_filesystem_def token_path_eval ex_paths)

text \<open>
  C8. Whenever \<^verbatim>\<open>generate_auth_url\<close> returns a URL, it is the URL the library built
  for one authorization request whose keyword arguments are \<open>access_type=offline\<close>,
  \<open>include_granted_scopes=true\<close> and \<open>prompt=consent\<close>; that request is the only one
  made.
\<close>

theorem generate_auth_url_offline_consent:
  assumes "generate_auth_url cfg env st email = (Inr body, calls)"
  shows "\<exists>flow url st'.
     get_flow cfg env = Inr flow \<and>
     authorization_url env st flow
       [(''access_type'', ''offline''), (''include_granted_scopes'', ''true''),
        (''prompt'', ''consent'')] = Inr (url, st') \<and>
     body = JObject [(''auth_url'', JString url), (''email'', JString email)] \<and>
     calls = [FromClientSecretsFile (CLIENT_SECRETS_FILE cfg),
              AuthorizationUrl [(''access_type'', ''offline''),
                (''include_granted_scopes'', ''true''), (''prompt'', ''consent'')]]"
  using assms
  by (auto simp: generate_auth_url_def auth_kwargs_def split: sum.splits)

text \<open>
  C8 with a library that writes its keyword arguments into the query.
\<close>

theorem generate_auth_url_offline_consent_witness:
  "\<exists>url st'.
     authorization_url example_env ''Zx3'' ()
       [(''access_type'', ''offline''), (''include_granted_scopes'', ''true''),
        (''prompt'', ''consent'')] = Inr (url, st') \<and>
     fst (generate_auth_url default_config example_env ''Zx3'' ''user@example.com'') =
       Inr (JObject [(''auth_url'', JString url), (''email'', JString ''user@example.com'')])"
  using generate_auth_url_offline_consent [OF example_generate]
  by (auto simp: example_generate)

text \<open>
  C9. For a given configuration, environment and library-generated state, the outcome of
  \<^verbatim>\<open>generate_auth_url\<close> (the error, or the URL) and the calls made are fixed before the
  \<open>email\<close> parameter is looked at: for every \<open>email\<close> the answer is that outcome, with
  the parameter echoed beside the URL. The comment on lines 184 and 185 speaks of
  storing the email with the state; nothing is stored, and the state the library returns
  is dropped.
\<close>

theorem generate_auth_url_ignores_email:
  "\<exists>outcome calls. \<forall>email.
     generate_auth_url cfg env st email =
       (map_sum id (\<lambda>url. JObject [(''auth_url'', JString url), (''email'', JString email)])
          outcome, calls)"
proof (cases "get_flow cfg env")
  case (Inl e)
  then show ?thesis
    by (intro exI [of _ "Inl (HTTPException 500
        (''Failed to generate auth URL: '' @ str_HTTPException env e))"] exI)
      (simp add: generate_auth_url_def)
next
  case (Inr flow)
  show ?thesis
  proof (cases "authorization_url env st flow auth_kwargs")
    case (Inl msg)
    with Inr show ?thesis
      by (intro exI [of _ "Inl (HTTPException 500 (''Failed to generate auth URL: '' @ msg))"] exI)
        (simp add: generate_auth_url_def)
  next
    case (Inr r)
    with \<open>get_flow cfg env = Inr flow\<close> show ?thesis
      by (intro exI [of _ "Inr (fst r)"] exI)
        (simp add: generate_auth_url_def split: prod.splits)
  qed
qed

text \<open>
  C10. The identifiers \<open>a@b\<close> and \<open>a_at_b\<close> differ and have the same file name, so
  after a successful save for the first, the lookup of the second answers \<open>has_token\<close>
  true with the record of the first.
\<close>

theorem sanitization_not_injective:
  assumes "save_token cfg t fs ''a@b'' c = (Inr p, fs')"
  shows "''a@b'' \<noteq> ''a_at_b'' \<and>
    token_filename ''a@b'' = token_filename ''a_at_b'' \<and>
    token_path cfg ''a_at_b'' = p \<and>
    get_token cfg fs' ''a_at_b'' =
      Inr (JObject [(''has_token'', JBool True),
                    (''created_at'', JString (isoformat t)),
                    (''message'', JString ''Token found for user'')])"
proof -
  have f: "token_filename ''a@b'' = token_filename ''a_at_b''"
    by (simp add: token_filename_def str_replace_char)
  then have tp: "token_path cfg ''a_at_b'' = token_path cfg ''a@b''"
    by (simp add: token_path_def)
  have p: "p = token_path cfg ''a@b''"
    using assms by (rule save_token_Inr(1))
  have "files fs' (resolve fs' (token_path cfg ''a_at_b'')) = Some (Document (token_data c t))"
    using save_token_Inr(3) [OF assms] tp by simp
  then have "get_token cfg fs' ''a_at_b'' =
      Inr (JObject [(''has_token'', JBool True),
                    (''created_at'', JString (isoformat t)),
                    (''message'', JString ''Token found for user'')])"
    using get_token_document [of fs' cfg "''a_at_b''"] by (simp add: token_data_def)
  with f tp p show ?thesis by simp
qed

text \<open>
  C10 in a fresh store.
\<close>

theorem sanitization_not_injective_witness:
  "token_filename ''a@b'' = token_filename ''a_at_b'' \<and>
   get_token default_config
     (snd (save_token default_config example_now empty_filesystem ''a@b'' example_credentials))
     ''a_at_b'' =
   Inr (JObject [(''has_token'', JBool True),
                 (''created_at'', JString ''2024-03-09T14:05:07.004500''),
                 (''message'', JString ''Token found for user'')])"
proof -
  have h: "save_token default_config example_now empty_filesystem ''a@b'' example_credentials =
     (Inr ''./tokens/a_at_b.json'',
      snd (save_token default_config example_now empty_filesystem ''a@b'' example_credentials))"
    by (simp add: save_token_def write_json_def empty_filesystem_def token_path_eval)
  show ?thesis
    using sanitization_not_injective [OF h] by (simp add: isoformat_example_now)
qed

end
